theory Spec2Isabelle
  imports Complex_Main
begin

section \<open>Data model\<close>

text \<open>
  The validation service passes dictionaries around; the ones the analysis stages build
  are modelled as records with the dictionary keys as field names. An issue's severity
  is always one of the three string constants \<^verbatim>\<open>"error"\<close>, \<^verbatim>\<open>"warning"\<close>, \<^verbatim>\<open>"info"\<close>.
  The keys \<^verbatim>\<open>"line"\<close> and \<^verbatim>\<open>"rule"\<close> are optional (and may hold \<^verbatim>\<open>None\<close>).
\<close>

datatype severity = Error | Warning | Info

record issue =
  severity :: severity
  message :: string
  "file" :: string
  line :: "int option"
  rule :: "string option"

text \<open>
  A score dictionary (\<^verbatim>\<open>Dict[str, float]\<close>) is an association list in insertion order.
  Python floats are modelled by exact rationals: the operations and their order are those
  of the source, and the rounding error of each float operation is left out. The two agree
  except where the exact value lies on a tie of \<^verbatim>\<open>round\<close> or within the rounding error of
  one (the float weights add up to 0.9999999999999999, so a value that is exactly 84.5
  here can be slightly more in the source, which then returns 85 where this model
  returns 84).
\<close>

type_synonym scores = "(string \<times> rat) list"

definition dict_get :: "('k \<times> 'v) list \<Rightarrow> 'k \<Rightarrow> 'v \<Rightarrow> 'v" where
  "dict_get d k dflt = (case map_of d k of Some v \<Rightarrow> v | None \<Rightarrow> dflt)"

text \<open>Python's \<^verbatim>\<open>round(x)\<close>: to the nearest integer, ties to the even one.\<close>

definition py_round :: "rat \<Rightarrow> int" where
  "py_round x =
     (let f = floor x; d = x - of_int f
      in if d < 1 / 2 then f
         else if 1 / 2 < d then f + 1
         else if even f then f else f + 1)"

section \<open>confidence\_scorer.py\<close>

definition weights :: "(string \<times> rat) list" where
  "weights =
     [(''security'', 35 / 100),
      (''technical_quality'', 30 / 100),
      (''originality'', 20 / 100),
      (''completeness'', 15 / 100)]"

text \<open>
  The loop of \<^verbatim>\<open>calculate_overall_confidence\<close> over \<^verbatim>\<open>scores.items()\<close>; the accumulator is
  the pair \<^verbatim>\<open>(weighted_score, total_weight)\<close>.
\<close>

fun weighted_sums :: "scores \<Rightarrow> rat \<times> rat \<Rightarrow> rat \<times> rat" where
  "weighted_sums [] acc = acc"
| "weighted_sums ((category, score) # rest) (weighted_score, total_weight) =
     (case map_of weights category of
        Some weight \<Rightarrow>
          weighted_sums rest (weighted_score + score * weight, total_weight + weight)
      | None \<Rightarrow> weighted_sums rest (weighted_score, total_weight))"

text \<open>The value \<^verbatim>\<open>final_score\<close>: normalised by the weights present, 50 when there are none.\<close>

definition final_score :: "scores \<Rightarrow> rat" where
  "final_score scores =
     (let (weighted_score, total_weight) = weighted_sums scores (0, 0)
      in if 0 < total_weight then weighted_score / total_weight else 50)"

definition apply_confidence_adjustments :: "scores \<Rightarrow> rat \<Rightarrow> rat" where
  "apply_confidence_adjustments scores base_score =
     (let adjusted_score = base_score;
          security_score = dict_get scores ''security'' 100;
          adjusted_score =
            (if security_score < 50 then adjusted_score * (3 / 10)
             else if security_score < 70 then adjusted_score * (7 / 10)
             else adjusted_score);
          technical_score = dict_get scores ''technical_quality'' 100;
          adjusted_score =
            (if technical_score < 30 then adjusted_score * (5 / 10) else adjusted_score);
          adjusted_score =
            (if list_all (\<lambda>(category, score). 85 \<le> score) scores
             then min 100 (adjusted_score * (105 / 100))
             else adjusted_score)
      in adjusted_score)"

definition calculate_overall_confidence :: "scores \<Rightarrow> int" where
  "calculate_overall_confidence scores =
     (let adjusted_score = apply_confidence_adjustments scores (final_score scores)
      in max 0 (min 100 (py_round adjusted_score)))"

text \<open>
  The handler \<^verbatim>\<open>except Exception: return 50\<close> of \<^verbatim>\<open>calculate_overall_confidence\<close>. Over
  rational scores nothing raises; the handler is reached for scores that are not numbers.
\<close>

definition calculate_overall_confidence_except :: int where
  "calculate_overall_confidence_except = 50"

section \<open>Python library functions used by the analysers\<close>

text \<open>
  A Python string is a list of code points, and the 8-bit characters of HOL are the code
  points below 256; a text with a code point from 256 on is outside this model. On these
  code points the case conversion, the white space test and the digit test are Python's:
  \<^verbatim>\<open>lower\<close> also maps the capital letters from U+00C0 to U+00DE, \<^verbatim>\<open>strip\<close> also removes
  U+0085 and U+00A0, and \<^verbatim>\<open>isdigit\<close> also accepts the superscripts U+00B2, U+00B3 and
  U+00B9, which \<^verbatim>\<open>int\<close> then refuses with a \<^verbatim>\<open>ValueError\<close>. The functions below are
  \<^verbatim>\<open>s.startswith(p)\<close>, \<^verbatim>\<open>sub in s\<close>, \<^verbatim>\<open>s.lower()\<close>, \<^verbatim>\<open>str(n)\<close> for a natural number,
  \<^verbatim>\<open>s.strip()\<close>, \<^verbatim>\<open>s.split(c)\<close>, \<^verbatim>\<open>sep.join(parts)\<close>, \<^verbatim>\<open>s.isdigit()\<close>, \<^verbatim>\<open>int(s)\<close> for a
  string that passed \<^verbatim>\<open>isdigit\<close>, and \<^verbatim>\<open>os.path.splitext(p)[1]\<close> with the POSIX separator
  (the service talks to ClamAV over a Unix socket).
\<close>

fun startswith :: "string \<Rightarrow> string \<Rightarrow> bool" where
  "startswith s [] = True"
| "startswith [] (p # ps) = False"
| "startswith (c # cs) (p # ps) = (c = p \<and> startswith cs ps)"

fun contains :: "string \<Rightarrow> string \<Rightarrow> bool" where
  "contains [] sub = (sub = [])"
| "contains (c # cs) sub = (startswith (c # cs) sub \<or> contains cs sub)"

definition lower_char :: "char \<Rightarrow> char" where
  "lower_char c =
     (let n = (of_char c :: nat)
      in if (65 \<le> n \<and> n \<le> 90) \<or> (192 \<le> n \<and> n \<le> 214) \<or> (216 \<le> n \<and> n \<le> 222)
         then char_of (n + 32) else c)"

definition lower :: "string \<Rightarrow> string" where
  "lower s = map lower_char s"

definition digit_char :: "nat \<Rightarrow> char" where
  "digit_char d = char_of (48 + d)"

fun str_nat :: "nat \<Rightarrow> string" where
  "str_nat n = (if n < 10 then [digit_char n] else str_nat (n div 10) @ [digit_char (n mod 10)])"

declare str_nat.simps [simp del]

definition is_space :: "char \<Rightarrow> bool" where
  "is_space c =
     (let n = (of_char c :: nat)
      in (9 \<le> n \<and> n \<le> 13) \<or> (28 \<le> n \<and> n \<le> 32) \<or> n = 133 \<or> n = 160)"

definition strip :: "string \<Rightarrow> string" where
  "strip s = rev (dropWhile is_space (rev (dropWhile is_space s)))"

fun split_char :: "char \<Rightarrow> string \<Rightarrow> string list" where
  "split_char sep [] = [[]]"
| "split_char sep (c # cs) =
     (if c = sep then [] # split_char sep cs
      else case split_char sep cs of
             w # ws \<Rightarrow> (c # w) # ws
           | [] \<Rightarrow> [[c]])"

fun join :: "string \<Rightarrow> string list \<Rightarrow> string" where
  "join sep [] = []"
| "join sep [w] = w"
| "join sep (w # v # ws) = w @ sep @ join sep (v # ws)"

definition is_decimal_char :: "char \<Rightarrow> bool" where
  "is_decimal_char c = (let n = (of_char c :: nat) in 48 \<le> n \<and> n \<le> 57)"

definition is_digit_char :: "char \<Rightarrow> bool" where
  "is_digit_char c =
     (let n = (of_char c :: nat) in is_decimal_char c \<or> n = 178 \<or> n = 179 \<or> n = 185)"

definition isdigit :: "string \<Rightarrow> bool" where
  "isdigit s = (s \<noteq> [] \<and> list_all is_digit_char s)"

definition int_of_digits :: "string \<Rightarrow> int" where
  "int_of_digits s = foldl (\<lambda>acc c. 10 * acc + (int (of_char c) - 48)) 0 s"

text \<open>\<^verbatim>\<open>int(s)\<close> for a string that passed \<^verbatim>\<open>isdigit\<close>; \<open>Inl\<close> is the text of the \<^verbatim>\<open>ValueError\<close>.\<close>

definition py_int :: "string \<Rightarrow> string + int" where
  "py_int s =
     (if list_all is_decimal_char s then Inr (int_of_digits s)
      else Inl (''invalid literal for int() with base 10: '' @ [CHR 0x27] @ s @ [CHR 0x27]))"

definition splitext_ext :: "string \<Rightarrow> string" where
  "splitext_ext p =
     (let b = rev (takeWhile (\<lambda>c. c \<noteq> CHR ''/'') (rev p));
          ext_rev = takeWhile (\<lambda>c. c \<noteq> CHR ''.'') (rev b);
          stem = take (length b - length ext_rev - 1) b
      in if CHR ''.'' \<notin> set b then []
         else if list_all (\<lambda>c. c = CHR ''.'') stem then []
         else CHR ''.'' # rev ext_rev)"

text \<open>
  The format \<^verbatim>\<open>{x:.1f}\<close> of a non-negative number, over the rationals: one decimal,
  rounded to nearest.
\<close>

definition fmt_1f :: "rat \<Rightarrow> string" where
  "fmt_1f x =
     (let n = nat (py_round (x * 10))
      in str_nat (n div 10) @ ''.'' @ str_nat (n mod 10))"

text \<open>
  The regular expressions of the source, each with the flags of its one call to
  \<^verbatim>\<open>re.findall\<close>. The regular expression engine is not modelled: the number of matches
  of an expression in a text is an observation.
\<close>

datatype regex =
    Rx_eval  \<comment> \<open>\<^verbatim>\<open>eval\s*\(\<close>, IGNORECASE\<close>
  | Rx_exec  \<comment> \<open>\<^verbatim>\<open>exec\s*\(\<close>, IGNORECASE\<close>
  | Rx_import  \<comment> \<open>\<^verbatim>\<open>__import__\s*\(\<close>, IGNORECASE\<close>
  | Rx_system  \<comment> \<open>\<^verbatim>\<open>subprocess\.|os\.system|os\.popen\<close>, IGNORECASE\<close>
  | Rx_network  \<comment> \<open>\<^verbatim>\<open>socket\.|urllib|requests\<close>, IGNORECASE\<close>
  | Rx_base64  \<comment> \<open>\<^verbatim>\<open>base64\.decode|base64\.b64decode\<close>, IGNORECASE\<close>
  | Rx_deserialization  \<comment> \<open>\<^verbatim>\<open>pickle\.loads?|marshal\.loads?\<close>, IGNORECASE\<close>
  | Rx_js_eval  \<comment> \<open>\<^verbatim>\<open>eval\s*\(\<close>, IGNORECASE\<close>
  | Rx_js_innerHTML  \<comment> \<open>\<^verbatim>\<open>innerHTML\s*=\<close>, IGNORECASE\<close>
  | Rx_js_document_write  \<comment> \<open>\<^verbatim>\<open>document\.write\s*\(\<close>, IGNORECASE\<close>
  | Rx_js_setTimeout  \<comment> \<open>\<^verbatim>\<open>setTimeout\s*\(\s*["\']\<close>, IGNORECASE\<close>
  | Rx_js_setInterval  \<comment> \<open>\<^verbatim>\<open>setInterval\s*\(\s*["\']\<close>, IGNORECASE\<close>
  | Rx_py_docstring  \<comment> \<open>\<^verbatim>\<open>""".*?"""\<close>, DOTALL\<close>
  | Rx_py_comment  \<comment> \<open>\<^verbatim>\<open>#.*$\<close>, MULTILINE\<close>
  | Rx_js_docstring  \<comment> \<open>\<^verbatim>\<open>/\*\*.*?\*/\<close>, DOTALL\<close>
  | Rx_js_comment  \<comment> \<open>\<^verbatim>\<open>//.*$\<close>, MULTILINE\<close>

section \<open>security\_scanner.py\<close>

text \<open>The dictionary \<^verbatim>\<open>file_info\<close>; the field \<open>size_bytes\<close> is its key \<^verbatim>\<open>"size"\<close>.\<close>

record file_info =
  name :: string
  size_bytes :: nat
  "type" :: string

text \<open>
  What the scanner observes of the file at \<^verbatim>\<open>file_path\<close> and of the ClamAV daemon.
  A call that can raise returns \<open>Inl\<close> of the exception's text. The \<^verbatim>\<open>scan\<close> method of the
  \<^verbatim>\<open>clamd\<close> client returns a dictionary from the path to the pair of the status and the
  reason: \<^verbatim>\<open>{'/tmp/EICAR': ('FOUND', 'Eicar-Test-Signature')}\<close> for a detected file and
  \<^verbatim>\<open>{'/tmp/clean': ('OK', None)}\<close> for a clean one.
\<close>

datatype clamd_reply =
    Scan_raises string  \<comment> \<open>\<^verbatim>\<open>clamd_socket.scan\<close> raised\<close>
  | Scan_none  \<comment> \<open>it returned \<^verbatim>\<open>None\<close>\<close>
  | Scan_items "(string \<times> string \<times> string option) list"
      \<comment> \<open>the items of the dictionary it returned: path, status and reason\<close>

record py_env =
  findall :: "regex \<Rightarrow> string \<Rightarrow> nat"  \<comment> \<open>\<^verbatim>\<open>len(re.findall(pattern, content, flags))\<close>\<close>

record scanner_env = py_env +
  clamd_socket :: bool  \<comment> \<open>the connection made at start-up is there\<close>
  clamd_scan :: clamd_reply
  read_16_bytes :: "string + string"  \<comment> \<open>\<^verbatim>\<open>open(file_path, 'rb').read(16)\<close>\<close>
  read_text_ignore :: "string + string"  \<comment> \<open>\<^verbatim>\<open>open(..., errors='ignore').read()\<close>\<close>
  st_size :: "string + nat"  \<comment> \<open>\<^verbatim>\<open>os.stat(file_path).st_size\<close>\<close>

record virus_result =
  infected :: bool
  virus :: "string option"
  error :: "string option"

record with_issues =
  issues :: "issue list"

record stage_result = with_issues +
  score_deduction :: int

record file_type_result = with_issues +
  suspicious :: bool

record scored = with_issues +
  score :: int

record scan_result = scored +
  scan_completed :: bool

text \<open>
  \<^verbatim>\<open>_scan_with_clamav\<close> takes the value of the first item for a string. It is the pair, so
  \<^verbatim>\<open>"FOUND" in status\<close> is a membership test on the pair, and where it holds
  \<^verbatim>\<open>status.replace\<close> raises \<^verbatim>\<open>AttributeError\<close>, which the handler of the function turns
  into a result that is not infected.
\<close>

definition scan_with_clamav :: "scanner_env \<Rightarrow> virus_result" where
  "scan_with_clamav env =
     (if \<not> clamd_socket env
      then \<lparr>infected = False, virus = None, error = Some ''ClamAV not available''\<rparr>
      else case clamd_scan env of
        Scan_raises e \<Rightarrow> \<lparr>infected = False, virus = None, error = Some e\<rparr>
      | Scan_none \<Rightarrow> \<lparr>infected = False, virus = None, error = None\<rparr>
      | Scan_items [] \<Rightarrow>
          \<lparr>infected = False, virus = None, error = Some ''list index out of range''\<rparr>
      | Scan_items ((filename, status) # rest) \<Rightarrow>
          (case status of (state, reason) \<Rightarrow>
             if state = ''FOUND'' \<or> reason = Some ''FOUND''
             then \<lparr>infected = False, virus = None,
                   error = Some ([CHR 0x27] @ ''tuple'' @ [CHR 0x27] @
                     '' object has no attribute '' @ [CHR 0x27] @ ''replace'' @ [CHR 0x27])\<rparr>
             else \<lparr>infected = False, virus = None, error = None\<rparr>))"

definition dangerous_extensions :: "string list" where
  "dangerous_extensions =
     [''.exe'', ''.bat'', ''.cmd'', ''.scr'', ''.pif'', ''.com'', ''.dll'',
      ''.msi'', ''.vbs'', ''.ps1'', ''.jar'', ''.app'', ''.deb'', ''.rpm'']"

definition validate_file_type :: "scanner_env \<Rightarrow> file_info \<Rightarrow> file_type_result" where
  "validate_file_type env file_info =
     (let file_extension = lower (splitext_ext (name file_info));
          dangerous = (file_extension \<in> set dangerous_extensions);
          issues_1 =
            (if dangerous
             then [\<lparr>severity = Error,
                    message = ''Dangerous file type not allowed: '' @ file_extension,
                    file = name file_info, line = None,
                    rule = Some ''file_type_validation''\<rparr>]
             else [])
      in case read_16_bytes env of
           Inl e \<Rightarrow>
             \<lparr>issues = issues_1 @
                 [\<lparr>severity = Warning, message = ''File type validation failed: '' @ e,
                   file = name file_info, line = None, rule = Some ''file_type_error''\<rparr>],
              suspicious = True\<rparr>
         | Inr file_signature \<Rightarrow>
             if 2 \<le> length file_signature \<and> take 2 file_signature = ''MZ''
             then \<lparr>issues = issues_1 @
                     [\<lparr>severity = Error, message = ''Executable file detected by signature'',
                       file = name file_info, line = None,
                       rule = Some ''file_signature_check''\<rparr>],
                   suspicious = True\<rparr>
             else \<lparr>issues = issues_1, suspicious = dangerous\<rparr>)"

definition text_extensions :: "string list" where
  "text_extensions =
     [''.py'', ''.js'', ''.ts'', ''.java'', ''.cpp'', ''.c'', ''.h'', ''.txt'', ''.md'']"

definition suspicious_patterns :: "(regex \<times> string \<times> severity) list" where
  "suspicious_patterns =
     [(Rx_eval, ''Use of eval() function detected'', Warning),
      (Rx_exec, ''Use of exec() function detected'', Warning),
      (Rx_import, ''Dynamic import detected'', Info),
      (Rx_system, ''System command execution detected'', Warning),
      (Rx_network, ''Network operation detected'', Info),
      (Rx_base64, ''Base64 decoding detected'', Info),
      (Rx_deserialization, ''Unsafe deserialization detected'', Error)]"

text \<open>
  The loop of \<^verbatim>\<open>_scan_file_content\<close> over the table; the accumulator is
  \<^verbatim>\<open>(issues, score_deduction)\<close>.
\<close>

fun scan_patterns ::
  "(regex \<Rightarrow> string \<Rightarrow> nat) \<Rightarrow> string \<Rightarrow> string \<Rightarrow> (regex \<times> string \<times> severity) list \<Rightarrow>
     issue list \<times> int \<Rightarrow> issue list \<times> int" where
  "scan_patterns fa content fname [] acc = acc"
| "scan_patterns fa content fname ((pattern, msg, sev) # rest) (issues_1, deduction) =
     (let matches = fa pattern content
      in if 0 < matches
         then scan_patterns fa content fname rest
                (issues_1 @
                   [\<lparr>severity = sev,
                     message = msg @ '' ('' @ str_nat matches @ '' occurrences)'',
                     file = fname, line = None, rule = Some ''content_pattern_scan''\<rparr>],
                 deduction + (case sev of Error \<Rightarrow> 30 | Warning \<Rightarrow> 10 | Info \<Rightarrow> 2))
         else scan_patterns fa content fname rest (issues_1, deduction))"

definition scan_file_content :: "scanner_env \<Rightarrow> file_info \<Rightarrow> stage_result" where
  "scan_file_content env file_info =
     (let file_extension = lower (splitext_ext (name file_info))
      in if file_extension \<notin> set text_extensions
         then \<lparr>issues = [], score_deduction = 0\<rparr>
         else case read_text_ignore env of
           Inl e \<Rightarrow>
             \<lparr>issues =
                 [\<lparr>severity = Warning, message = ''Content scan failed: '' @ e,
                   file = name file_info, line = None, rule = Some ''content_scan_error''\<rparr>],
              score_deduction = 5\<rparr>
         | Inr content \<Rightarrow>
             (let (issues_1, deduction) =
                    scan_patterns (findall env) content (name file_info) suspicious_patterns
                      ([], 0)
              in \<lparr>issues = issues_1, score_deduction = min deduction 50\<rparr>))"

definition code_extensions :: "string list" where
  "code_extensions = [''.py'', ''.js'', ''.java'', ''.cpp'']"

definition validate_file_structure :: "scanner_env \<Rightarrow> file_info \<Rightarrow> stage_result" where
  "validate_file_structure env file_info =
     (case st_size env of
        Inl e \<Rightarrow>
          \<lparr>issues =
              [\<lparr>severity = Info, message = ''File structure validation failed: '' @ e,
                file = name file_info, line = None,
                rule = Some ''structure_validation_error''\<rparr>],
           score_deduction = 1\<rparr>
      | Inr file_size \<Rightarrow>
          (let large = (100 * 1024 * 1024 < file_size);
               issues_1 =
                 (if large
                  then [\<lparr>severity = Warning,
                         message = ''Large file size: '' @
                           fmt_1f (of_nat file_size / (1024 * 1024)) @ ''MB'',
                         file = name file_info, line = None, rule = Some ''file_size_check''\<rparr>]
                  else []);
               score_deduction_1 = (if large then 5 else 0);
               file_extension = lower (splitext_ext (name file_info));
               small = (file_extension \<in> set code_extensions \<and> file_size < 10);
               issues_2 =
                 (if small
                  then issues_1 @
                       [\<lparr>severity = Info, message = ''Very small code file detected'',
                         file = name file_info, line = None, rule = Some ''file_size_check''\<rparr>]
                  else issues_1);
               score_deduction_2 = (if small then score_deduction_1 + 2 else score_deduction_1)
           in \<lparr>issues = issues_2, score_deduction = score_deduction_2\<rparr>))"

definition scan_file :: "scanner_env \<Rightarrow> file_info \<Rightarrow> scan_result" where
  "scan_file env file_info =
     (let virus_result = scan_with_clamav env;
          issues_1 =
            (if infected virus_result
             then [\<lparr>severity = Error,
                    message = ''Malware detected: '' @
                      (case virus virus_result of Some v \<Rightarrow> v | None \<Rightarrow> ''None''),
                    file = name file_info, line = None, rule = Some ''clamav_scan''\<rparr>]
             else []);
          security_score_1 = (if infected virus_result then 0 else 100);
          file_type_result = validate_file_type env file_info;
          issues_2 =
            (if suspicious file_type_result then issues_1 @ issues file_type_result
             else issues_1);
          security_score_2 =
            (if suspicious file_type_result then security_score_1 - 20 else security_score_1);
          content_result = scan_file_content env file_info;
          issues_3 = issues_2 @ issues content_result;
          security_score_3 = security_score_2 - score_deduction content_result;
          structure_result = validate_file_structure env file_info;
          issues_4 = issues_3 @ issues structure_result;
          security_score_4 = security_score_3 - score_deduction structure_result;
          security_score_5 = max 0 security_score_4
      in \<lparr>issues = issues_4, score = security_score_5, scan_completed = True\<rparr>)"

text \<open>
  The handler \<^verbatim>\<open>except Exception as e\<close> of \<^verbatim>\<open>scan_file\<close>, entered with the issues
  collected so far. Every stage above catches its own exceptions, so no observation of
  \<open>scanner_env\<close> leads here.
\<close>

definition scan_file_except :: "issue list \<Rightarrow> string \<Rightarrow> file_info \<Rightarrow> scan_result" where
  "scan_file_except issues_so_far e file_info =
     \<lparr>issues = issues_so_far @
         [\<lparr>severity = Error, message = ''Security scan failed: '' @ e,
           file = name file_info, line = None, rule = Some ''scan_error''\<rparr>],
      score = 0, scan_completed = False\<rparr>"

section \<open>code\_validator.py\<close>

text \<open>
  What the validator observes: the text of the file, the parser of the \<^verbatim>\<open>ast\<close> module,
  and the runs of the external tools with \<^verbatim>\<open>subprocess.run\<close>.
\<close>

datatype parse_outcome =
    Parse_ok
  | Syntax_error string "int option"  \<comment> \<open>\<^verbatim>\<open>SyntaxError\<close>: its text and \<^verbatim>\<open>lineno\<close>\<close>
  | Parse_raises string  \<comment> \<open>any other exception\<close>

datatype proc_result =
    Completed int string string  \<comment> \<open>\<^verbatim>\<open>returncode\<close>, \<^verbatim>\<open>stdout\<close>, \<^verbatim>\<open>stderr\<close>\<close>
  | Timeout_expired  \<comment> \<open>\<^verbatim>\<open>subprocess.TimeoutExpired\<close>\<close>
  | File_not_found string  \<comment> \<open>\<^verbatim>\<open>FileNotFoundError\<close>: the tool is not installed\<close>
  | Run_raises string  \<comment> \<open>any other exception\<close>

text \<open>An ESLint message and a Bandit result, as parsed from JSON; every key may be absent.\<close>

record eslint_message =
  m_severity :: "int option"
  m_message :: "string option"
  m_line :: "int option"
  m_ruleId :: "string option option"  \<comment> \<open>\<open>Some None\<close> is the JSON \<^verbatim>\<open>null\<close>\<close>

record bandit_issue =
  issue_severity :: "string option"
  issue_text :: "string option"
  test_name :: "string option"
  line_number :: "int option"
  test_id :: "string option"

record validator_env = py_env +
  read_text_utf8 :: "string + string"  \<comment> \<open>\<^verbatim>\<open>open(file_path, 'r', encoding='utf-8').read()\<close>\<close>
  ast_parse :: "string \<Rightarrow> parse_outcome"
  node_check :: proc_result  \<comment> \<open>\<^verbatim>\<open>node --check file_path\<close>\<close>
  flake8 :: proc_result
  eslint :: proc_result
  bandit :: proc_result
  eslint_loads :: "string \<Rightarrow> eslint_message list list option"
    \<comment> \<open>\<^verbatim>\<open>json.loads\<close> of ESLint's output: the \<^verbatim>\<open>messages\<close> of each file result;
        \<open>None\<close> is \<^verbatim>\<open>JSONDecodeError\<close>\<close>
  bandit_loads :: "string \<Rightarrow> bandit_issue list option"
    \<comment> \<open>\<^verbatim>\<open>json.loads\<close> of Bandit's output: its \<^verbatim>\<open>results\<close>\<close>

record validation_result = scored +
  language :: "string option"  \<comment> \<open>the key is absent on the two early returns\<close>

text \<open>
  The result of a syntax checker: \<^verbatim>\<open>{"valid": True}\<close>, or
  \<^verbatim>\<open>{"valid": False, "error": ..., "line": ...}\<close> where the line may be absent.
\<close>

datatype syntax_result = Valid | Invalid string "int option"

definition supported_languages :: "(string \<times> string list) list" where
  "supported_languages = [(''python'', [''.py'']), (''javascript'', [''.js'', ''.jsx''])]"

fun detect_language_in :: "(string \<times> string list) list \<Rightarrow> string \<Rightarrow> string option" where
  "detect_language_in [] file_extension = None"
| "detect_language_in ((lang, extensions) # rest) file_extension =
     (if file_extension \<in> set extensions then Some lang
      else detect_language_in rest file_extension)"

definition detect_language :: "string \<Rightarrow> string option" where
  "detect_language file_extension = detect_language_in supported_languages file_extension"

definition check_python_syntax :: "validator_env \<Rightarrow> syntax_result" where
  "check_python_syntax env =
     (case read_text_utf8 env of
        Inl e \<Rightarrow> Invalid (''Parsing error: '' @ e) None
      | Inr code \<Rightarrow>
          (case ast_parse env code of
             Parse_ok \<Rightarrow> Valid
           | Syntax_error e lineno \<Rightarrow> Invalid e lineno
           | Parse_raises e \<Rightarrow> Invalid (''Parsing error: '' @ e) None))"

definition check_javascript_syntax :: "validator_env \<Rightarrow> syntax_result" where
  "check_javascript_syntax env =
     (case node_check env of
        Completed returncode out err \<Rightarrow>
          if returncode = 0 then Valid else Invalid (strip err) None
      | Timeout_expired \<Rightarrow> Invalid ''Syntax check timed out'' None
      | File_not_found e \<Rightarrow> Invalid ''Node.js not available for syntax checking'' None
      | Run_raises e \<Rightarrow> Invalid (''Syntax check error: '' @ e) None)"

text \<open>
  \<^verbatim>\<open>self.supported_languages[language]['syntax_checker']\<close>; \<open>None\<close> is the
  \<^verbatim>\<open>KeyError\<close> for a language that is not in the table.
\<close>

definition syntax_checker :: "validator_env \<Rightarrow> string \<Rightarrow> syntax_result option" where
  "syntax_checker env lang =
     (if lang = ''python'' then Some (check_python_syntax env)
      else if lang = ''javascript'' then Some (check_javascript_syntax env)
      else None)"

definition validate_syntax :: "validator_env \<Rightarrow> string \<Rightarrow> file_info \<Rightarrow> stage_result" where
  "validate_syntax env lang file_info =
     (case syntax_checker env lang of
        None \<Rightarrow>
          \<lparr>issues =
              [\<lparr>severity = Warning,
                message = ''Syntax validation failed: '' @ [CHR 0x27] @ lang @ [CHR 0x27],
                file = name file_info, line = None,
                rule = Some ''syntax_validation_error''\<rparr>],
           score_deduction = 10\<rparr>
      | Some Valid \<Rightarrow> \<lparr>issues = [], score_deduction = 0\<rparr>
      | Some (Invalid e lineno) \<Rightarrow>
          \<lparr>issues =
              [\<lparr>severity = Error, message = ''Syntax error: '' @ e,
                file = name file_info, line = lineno, rule = Some ''syntax_validation''\<rparr>],
           score_deduction = 50\<rparr>)"

text \<open>
  One line of Flake8's output, in the format \<^verbatim>\<open>path:row:col:code:text\<close>; \<open>Inl\<close> is the
  \<^verbatim>\<open>ValueError\<close> of \<^verbatim>\<open>int(line_num)\<close>.
\<close>

definition flake8_line ::
  "string \<Rightarrow> string \<Rightarrow> issue list \<times> int \<Rightarrow> string + issue list \<times> int" where
  "flake8_line fname row acc =
     (case acc of (issues_1, deduction) \<Rightarrow>
        if row = [] then Inr acc
        else let parts = split_char CHR '':'' row
             in if length parts < 5 then Inr acc
                else let line_num = parts ! 1;
                         code = parts ! 3;
                         msg = strip (join '':'' (drop 4 parts));
                         critical = (contains code ''E9'' \<or> contains code ''F'')
                     in case (if isdigit line_num then map_sum id Some (py_int line_num)
                              else Inr None) of
                          Inl e \<Rightarrow> Inl e
                        | Inr line_v \<Rightarrow>
                            Inr (issues_1 @
                                   [\<lparr>severity = (if critical then Error else Warning),
                                     message = code @ '': '' @ msg,
                                     file = fname,
                                     line = line_v,
                                     rule = Some ''flake8''\<rparr>],
                                 deduction + (if critical then 5 else 2)))"

text \<open>The loop of \<^verbatim>\<open>_analyze_code_quality\<close> over the lines of Flake8's output.\<close>

fun flake8_rows ::
  "string \<Rightarrow> string list \<Rightarrow> issue list \<times> int \<Rightarrow> string + issue list \<times> int" where
  "flake8_rows fname [] acc = Inr acc"
| "flake8_rows fname (row # rows) acc =
     (case flake8_line fname row acc of
        Inl e \<Rightarrow> Inl e
      | Inr acc' \<Rightarrow> flake8_rows fname rows acc')"

text \<open>One message of ESLint's report.\<close>

definition eslint_issue :: "string \<Rightarrow> eslint_message \<Rightarrow> issue list \<times> int \<Rightarrow> issue list \<times> int" where
  "eslint_issue fname m acc =
     (case acc of (issues_1, deduction) \<Rightarrow>
        let level = (case m_severity m of None \<Rightarrow> 1 | Some n \<Rightarrow> n);
            sev = (if level = 1 then Warning else if level = 2 then Error else Info)
        in (issues_1 @
              [\<lparr>severity = sev,
                message = (case m_message m of None \<Rightarrow> [] | Some t \<Rightarrow> t),
                file = fname,
                line = m_line m,
                rule = (case m_ruleId m of None \<Rightarrow> Some ''eslint'' | Some r \<Rightarrow> r)\<rparr>],
            deduction + (if sev = Error then 5 else 2)))"

definition analyze_code_quality :: "validator_env \<Rightarrow> string \<Rightarrow> file_info \<Rightarrow> stage_result" where
  "analyze_code_quality env lang file_info =
     (let timed_out =
            \<lparr>issues =
                [\<lparr>severity = Warning, message = ''Code quality analysis timed out'',
                  file = name file_info, line = None, rule = Some ''quality_timeout''\<rparr>],
             score_deduction = 5\<rparr>;
          failed = (\<lambda>e.
            \<lparr>issues =
                [\<lparr>severity = Info, message = ''Code quality analysis failed: '' @ e,
                  file = name file_info, line = None,
                  rule = Some ''quality_analysis_error''\<rparr>],
             score_deduction = 0\<rparr>);
          finish = (\<lambda>acc. case acc of (issues_1, deduction) \<Rightarrow>
            \<lparr>issues = issues_1, score_deduction = min deduction 30\<rparr>)
      in if lang = ''python'' then
           (case flake8 env of
              Completed returncode out err \<Rightarrow>
                if returncode \<noteq> 0 \<and> out \<noteq> []
                then (case flake8_rows (name file_info) (split_char CHR 0x0A (strip out))
                             ([], 0) of
                        Inl e \<Rightarrow> failed e
                      | Inr acc \<Rightarrow> finish acc)
                else finish ([], 0)
            | Timeout_expired \<Rightarrow> timed_out
            | File_not_found e \<Rightarrow> failed e
            | Run_raises e \<Rightarrow> failed e)
         else if lang = ''javascript'' then
           (case eslint env of
              Completed returncode out err \<Rightarrow>
                if out \<noteq> []
                then (case eslint_loads env out of
                        None \<Rightarrow> finish ([], 0)
                      | Some eslint_results \<Rightarrow>
                          finish (foldl (\<lambda>acc m. eslint_issue (name file_info) m acc) ([], 0)
                                    (concat eslint_results)))
                else finish ([], 0)
            | Timeout_expired \<Rightarrow> timed_out
            | File_not_found e \<Rightarrow> failed e
            | Run_raises e \<Rightarrow> failed e)
         else finish ([], 0))"

text \<open>One result of Bandit's report.\<close>

definition bandit_finding :: "string \<Rightarrow> bandit_issue \<Rightarrow> issue list \<times> int \<Rightarrow> issue list \<times> int" where
  "bandit_finding fname b acc =
     (case acc of (issues_1, deduction) \<Rightarrow>
        let level = (case issue_severity b of None \<Rightarrow> ''LOW'' | Some l \<Rightarrow> l);
            sev = (if level = ''LOW'' then Info else if level = ''MEDIUM'' then Warning
                   else if level = ''HIGH'' then Error else Info)
        in (issues_1 @
              [\<lparr>severity = sev,
                message = (case issue_text b of None \<Rightarrow> [] | Some t \<Rightarrow> t) @ '': '' @
                          (case test_name b of None \<Rightarrow> [] | Some t \<Rightarrow> t),
                file = fname,
                line = line_number b,
                rule = Some (''bandit-'' @ (case test_id b of None \<Rightarrow> [] | Some t \<Rightarrow> t))\<rparr>],
            deduction + (case sev of Error \<Rightarrow> 15 | Warning \<Rightarrow> 8 | Info \<Rightarrow> 3)))"

definition security_patterns :: "(regex \<times> string \<times> severity) list" where
  "security_patterns =
     [(Rx_js_eval, ''Use of eval() detected'', Error),
      (Rx_js_innerHTML, ''Potential XSS with innerHTML'', Warning),
      (Rx_js_document_write, ''Use of document.write detected'', Warning),
      (Rx_js_setTimeout, ''setTimeout with string argument'', Warning),
      (Rx_js_setInterval, ''setInterval with string argument'', Warning)]"

text \<open>The loop of \<^verbatim>\<open>_analyze_code_security\<close> over the JavaScript table.\<close>

fun js_patterns ::
  "(regex \<Rightarrow> string \<Rightarrow> nat) \<Rightarrow> string \<Rightarrow> string \<Rightarrow> (regex \<times> string \<times> severity) list \<Rightarrow>
     issue list \<times> int \<Rightarrow> issue list \<times> int" where
  "js_patterns fa content fname [] acc = acc"
| "js_patterns fa content fname ((pattern, msg, sev) # rest) (issues_1, deduction) =
     (let matches = fa pattern content
      in if 0 < matches
         then js_patterns fa content fname rest
                (issues_1 @
                   [\<lparr>severity = sev,
                     message = msg @ '' ('' @ str_nat matches @ '' occurrences)'',
                     file = fname, line = None, rule = Some ''js_security_pattern''\<rparr>],
                 deduction + (case sev of Error \<Rightarrow> 15 | Warning \<Rightarrow> 8 | Info \<Rightarrow> 0))
         else js_patterns fa content fname rest (issues_1, deduction))"

definition analyze_code_security :: "validator_env \<Rightarrow> string \<Rightarrow> file_info \<Rightarrow> stage_result" where
  "analyze_code_security env lang file_info =
     (let timed_out =
            \<lparr>issues =
                [\<lparr>severity = Warning, message = ''Security analysis timed out'',
                  file = name file_info, line = None, rule = Some ''security_timeout''\<rparr>],
             score_deduction = 5\<rparr>;
          failed = (\<lambda>e.
            \<lparr>issues =
                [\<lparr>severity = Info, message = ''Security analysis failed: '' @ e,
                  file = name file_info, line = None,
                  rule = Some ''security_analysis_error''\<rparr>],
             score_deduction = 0\<rparr>);
          finish = (\<lambda>acc. case acc of (issues_1, deduction) \<Rightarrow>
            \<lparr>issues = issues_1, score_deduction = min deduction 40\<rparr>)
      in if lang = ''python'' then
           (case bandit env of
              Completed returncode out err \<Rightarrow>
                if out \<noteq> []
                then (case bandit_loads env out of
                        None \<Rightarrow> finish ([], 0)
                      | Some results \<Rightarrow>
                          finish (foldl (\<lambda>acc b. bandit_finding (name file_info) b acc) ([], 0)
                                    results))
                else finish ([], 0)
            | Timeout_expired \<Rightarrow> timed_out
            | File_not_found e \<Rightarrow> failed e
            | Run_raises e \<Rightarrow> failed e)
         else if lang = ''javascript'' then
           (case read_text_utf8 env of
              Inl e \<Rightarrow> failed e
            | Inr content \<Rightarrow>
                finish (js_patterns (findall env) content (name file_info) security_patterns
                          ([], 0)))
         else finish ([], 0))"

text \<open>
  In \<^verbatim>\<open>_analyze_complexity\<close> the counts of functions and classes are computed and not used.
  For a language other than the two supported ones \<^verbatim>\<open>docstring_count\<close> is unbound
  where the documentation ratio reads it, and the handler returns its own result.
\<close>

definition analyze_complexity :: "validator_env \<Rightarrow> string \<Rightarrow> file_info \<Rightarrow> stage_result" where
  "analyze_complexity env lang file_info =
     (let failed = (\<lambda>e.
            \<lparr>issues =
                [\<lparr>severity = Info, message = ''Complexity analysis failed: '' @ e,
                  file = name file_info, line = None,
                  rule = Some ''complexity_analysis_error''\<rparr>],
             score_deduction = 0\<rparr>)
      in case read_text_utf8 env of
           Inl e \<Rightarrow> failed e
         | Inr content \<Rightarrow>
             (let lines = split_char CHR 0x0A content;
                  line_count = length lines;
                  non_empty_lines = length (filter (\<lambda>l. strip l \<noteq> []) lines);
                  big = (500 < line_count);
                  issues_1 =
                    (if big
                     then [\<lparr>severity = Info,
                            message = ''Large file: '' @ str_nat line_count @
                              '' lines (consider splitting)'',
                            file = name file_info, line = None,
                            rule = Some ''file_size_complexity''\<rparr>]
                     else []);
                  score_deduction_1 = (if big then 3 else 0);
                  counts =
                    (if lang = ''python''
                     then Some (findall env Rx_py_docstring content,
                                findall env Rx_py_comment content)
                     else if lang = ''javascript''
                     then Some (findall env Rx_js_docstring content,
                                findall env Rx_js_comment content)
                     else None)
              in if 20 < non_empty_lines
                 then (case counts of
                         None \<Rightarrow>
                           failed (''cannot access local variable '' @ [CHR 0x27] @
                             ''docstring_count'' @ [CHR 0x27] @
                             '' where it is not associated with a value'')
                       | Some (docstring_count, comment_count) \<Rightarrow>
                           if (of_nat (docstring_count + comment_count) :: rat) /
                                of_nat non_empty_lines < 1 / 10
                           then \<lparr>issues = issues_1 @
                                   [\<lparr>severity = Info,
                                     message =
                                       ''Consider adding more comments and documentation'',
                                     file = name file_info, line = None,
                                     rule = Some ''documentation_ratio''\<rparr>],
                                 score_deduction = score_deduction_1 + 2\<rparr>
                           else \<lparr>issues = issues_1, score_deduction = score_deduction_1\<rparr>)
                 else \<lparr>issues = issues_1, score_deduction = score_deduction_1\<rparr>))"

definition validate_code_file :: "validator_env \<Rightarrow> file_info \<Rightarrow> validation_result" where
  "validate_code_file env file_info =
     (let file_extension = lower (splitext_ext (name file_info))
      in case detect_language file_extension of
           None \<Rightarrow>
             \<lparr>issues =
                 [\<lparr>severity = Info,
                   message = ''Unsupported file type for code validation: '' @ file_extension,
                   file = name file_info, line = None, rule = Some ''language_detection''\<rparr>],
              score = 50, language = None\<rparr>
         | Some lang \<Rightarrow>
             (let syntax_res = validate_syntax env lang file_info;
                  issues_1 = issues syntax_res;
                  technical_score_1 = 100 - score_deduction syntax_res;
                  quality_result = analyze_code_quality env lang file_info;
                  issues_2 = issues_1 @ issues quality_result;
                  technical_score_2 = technical_score_1 - score_deduction quality_result;
                  security_result = analyze_code_security env lang file_info;
                  issues_3 = issues_2 @ issues security_result;
                  technical_score_3 = technical_score_2 - score_deduction security_result;
                  complexity_result = analyze_complexity env lang file_info;
                  issues_4 = issues_3 @ issues complexity_result;
                  technical_score_4 = technical_score_3 - score_deduction complexity_result;
                  technical_score_5 = max 0 technical_score_4
              in \<lparr>issues = issues_4, score = technical_score_5, language = Some lang\<rparr>))"

text \<open>
  The handler \<^verbatim>\<open>except Exception as e\<close> of \<^verbatim>\<open>validate_code_file\<close>. Every stage above
  catches its own exceptions, so no observation of \<open>validator_env\<close> leads here.
\<close>

definition validate_code_file_except :: "string \<Rightarrow> file_info \<Rightarrow> validation_result" where
  "validate_code_file_except e file_info =
     \<lparr>issues =
         [\<lparr>severity = Error, message = ''Code validation failed: '' @ e,
           file = name file_info, line = None, rule = Some ''validation_error''\<rparr>],
      score = 0, language = None\<rparr>"

section \<open>main.py: the orchestrator\<close>

text \<open>
  An uploaded file; the two analysers observe the temporary file written from it.
  \<^verbatim>\<open>HTTPException\<close> is the only failure the two endpoints surface. Both endpoints raise
  their own status 400 inside the \<^verbatim>\<open>try\<close> block whose handler wraps every exception into a
  status 500, with the text of the exception (in Starlette the status code, a colon and
  the detail) in the new detail.
\<close>

record upload_file =
  filename :: string
  content :: string
  content_type :: "string option"

datatype http_exception = HTTPException nat string

definition str_http_exception :: "http_exception \<Rightarrow> string" where
  "str_http_exception e = (case e of HTTPException status_code detail \<Rightarrow>
     str_nat status_code @ '': '' @ detail)"

definition get_recommendation :: "int \<Rightarrow> issue list \<Rightarrow> string" where
  "get_recommendation confidence all_issues =
     (let critical_issues = filter (\<lambda>issue. severity issue = Error) all_issues
      in if critical_issues \<noteq> [] then ''reject''
         else if 85 \<le> confidence then ''approve''
         else if 70 \<le> confidence then ''human_review''
         else ''reject'')"

text \<open>
  The dictionary that \<^verbatim>\<open>process_single_file\<close> returns, the fields of
  \<^verbatim>\<open>ValidationResponse\<close> that do not depend on the clock, and the dictionary that
  \<^verbatim>\<open>validate_code_only\<close> returns, whose keys \<^verbatim>\<open>"scores"\<close> and \<^verbatim>\<open>"recommendation"\<close> are
  the fields \<open>code_scores\<close> and \<open>code_recommendation\<close>.
\<close>

record file_result = with_issues +
  file_info :: file_info
  scores :: scores

record validation_response =
  overall_confidence :: int
  security_passed :: bool
  detailed_scores :: scores
  issues_found :: "issue list"
  recommendation :: string
  files_processed :: nat

record code_only_result = with_issues +
  confidence :: int
  code_scores :: scores
  code_recommendation :: string

text \<open>
  The dictionary \<^verbatim>\<open>file_info\<close> that \<^verbatim>\<open>process_single_file\<close> builds for an upload; its type
  is \<^verbatim>\<open>file.content_type or "unknown"\<close>. The temporary file of \<^verbatim>\<open>process_single_file\<close> is
  taken to be created, written and removed without an error: an upload whose name
  \<^verbatim>\<open>NamedTemporaryFile\<close> refuses as a suffix (a name with a \<^verbatim>\<open>/\<close>) makes the request end in
  the status 500 before any analysis, and is not an \<open>upload_file\<close> of this model.
\<close>

definition upload_info :: "upload_file \<Rightarrow> file_info" where
  "upload_info upload =
     \<lparr>name = filename upload, size_bytes = length (content upload),
      type = (case content_type upload of
                Some t \<Rightarrow> if t = [] then ''unknown'' else t
              | None \<Rightarrow> ''unknown'')\<rparr>"

definition process_single_file ::
  "scanner_env \<Rightarrow> validator_env \<Rightarrow> upload_file \<Rightarrow> string \<Rightarrow> file_result" where
  "process_single_file senv venv upload researcher_type =
     (let info = upload_info upload;
          security_result = scan_file senv info;
          validation_res =
            (if researcher_type = ''coder'' then validate_code_file venv info
             else \<lparr>issues = [], score = 0, language = None\<rparr>)
      in \<lparr>issues = issues security_result @ issues validation_res,
          file_info = info,
          scores =
            [(''security'', of_int (score security_result)),
             (''technical_quality'', of_int (score validation_res)),
             (''originality'', 85),
             (''completeness'', 80)]\<rparr>)"

text \<open>Python's \<^verbatim>\<open>round(x, 2)\<close>, over the rationals.\<close>

definition round_2 :: "rat \<Rightarrow> rat" where
  "round_2 x = of_int (py_round (x * 100)) / 100"

text \<open>
  One turn of the loop of \<^verbatim>\<open>validate_submission\<close> over the files; the accumulator is
  \<^verbatim>\<open>(processed_files, overall_scores, all_issues)\<close>. Every file result has the four keys
  of \<^verbatim>\<open>overall_scores\<close>.
\<close>

definition add_file ::
  "string \<Rightarrow> file_result list \<times> scores \<times> issue list \<Rightarrow>
     upload_file \<times> scanner_env \<times> validator_env \<Rightarrow> file_result list \<times> scores \<times> issue list" where
  "add_file researcher_type acc f =
     (case acc of (processed_files, overall_scores, all_issues) \<Rightarrow>
      case f of (upload, senv, venv) \<Rightarrow>
        let fr = process_single_file senv venv upload researcher_type
        in (processed_files @ [fr],
            map (\<lambda>(key, total). (key, total + dict_get (scores fr) key 0)) overall_scores,
            all_issues @ issues fr))"

definition validate_submission ::
  "string \<Rightarrow> (upload_file \<times> scanner_env \<times> validator_env) list \<Rightarrow>
     http_exception + validation_response" where
  "validate_submission researcher_type files =
     (let failed = (\<lambda>e. Inl (HTTPException 500 (''Validation failed: '' @ str_http_exception e)))
      in if researcher_type \<notin> set [''coder'', ''researcher'', ''data_scientist'']
         then failed (HTTPException 400 ''Invalid researcher type'')
         else if files = [] then failed (HTTPException 400 ''No files provided'')
         else
           (case foldl (add_file researcher_type)
                   ([], [(''security'', 0), (''technical_quality'', 0), (''originality'', 0),
                         (''completeness'', 0)], [])
                   files of
              (processed_files, summed_scores, all_issues) \<Rightarrow>
                let num_files = length processed_files;
                    overall_scores =
                      map (\<lambda>(key, total). (key, round_2 (total / of_nat num_files)))
                        summed_scores;
                    overall = calculate_overall_confidence overall_scores
                in Inr \<lparr>overall_confidence = overall,
                        security_passed = (70 \<le> dict_get overall_scores ''security'' 0),
                        detailed_scores = overall_scores,
                        issues_found = all_issues,
                        recommendation = get_recommendation overall all_issues,
                        files_processed = num_files\<rparr>))"

definition get_extension :: "string \<Rightarrow> string" where
  "get_extension lang =
     dict_get [(''python'', ''py''), (''javascript'', ''js''), (''typescript'', ''ts''),
               (''java'', ''java''), (''cpp'', ''cpp'')] lang ''txt''"

text \<open>
  \<^verbatim>\<open>validate_code_only\<close>: the temporary file gets the extension of the language, but the
  analysers read the extension from the \<^verbatim>\<open>filename\<close> of the request.
\<close>

definition validate_code_only ::
  "scanner_env \<Rightarrow> validator_env \<Rightarrow> string \<Rightarrow> string \<Rightarrow> string \<Rightarrow>
     http_exception + code_only_result" where
  "validate_code_only senv venv code_content lang fname =
     (if lang \<notin> set [''python'', ''javascript'']
      then Inl (HTTPException 500 (''Code validation failed: '' @
                  str_http_exception (HTTPException 400 ''Unsupported language'')))
      else
        let info = \<lparr>name = fname, size_bytes = length code_content, type = ''text/'' @ lang\<rparr>;
            security_result = scan_file senv info;
            validation_res = validate_code_file venv info;
            sc = [(''security'', of_int (score security_result)),
                  (''technical_quality'', of_int (score validation_res)),
                  (''originality'', 85),
                  (''completeness'', 80)];
            overall = calculate_overall_confidence sc;
            all_issues = issues security_result @ issues validation_res
        in Inr \<lparr>issues = all_issues,
                confidence = overall,
                code_scores = sc,
                code_recommendation = get_recommendation overall all_issues\<rparr>)"

section \<open>Example inputs\<close>

text \<open>
  A file \<^verbatim>\<open>tool.exe\<close> that consists of the two bytes \<^verbatim>\<open>MZ\<close>, once with the reply of
  ClamAV for a detected file and once with no reply.
\<close>

definition example_findall :: "regex \<Rightarrow> string \<Rightarrow> nat" where
  "example_findall r c = (if r = Rx_eval \<or> r = Rx_js_eval then 1 else 0)"

definition infected_env :: scanner_env where
  "infected_env =
     \<lparr>findall = example_findall,
      clamd_socket = True,
      clamd_scan =
        Scan_items [(''/tmp/tmpk3_tool.exe'', ''FOUND'', Some ''Eicar-Test-Signature'')],
      read_16_bytes = Inr ''MZ'',
      read_text_ignore = Inr ''MZ'',
      st_size = Inr 2\<rparr>"

definition clean_exe_env :: scanner_env where
  "clean_exe_env = infected_env\<lparr>clamd_scan := Scan_none\<rparr>"

definition exe_info :: file_info where
  "exe_info = \<lparr>name = ''tool.exe'', size_bytes = 2, type = ''unknown''\<rparr>"

text \<open>
  A JavaScript file \<^verbatim>\<open>app.js\<close> with the text \<^verbatim>\<open>eval(x)\<close>, clean for ClamAV, Node.js
  and ESLint; a machine where none of the external tools is installed; a file that is gone
  when the scanner opens it; and the file names of a Java and a Python source.
\<close>

definition js_scanner_env :: scanner_env where
  "js_scanner_env =
     \<lparr>findall = example_findall,
      clamd_socket = True,
      clamd_scan = Scan_none,
      read_16_bytes = Inr ''eval(x)'',
      read_text_ignore = Inr ''eval(x)'',
      st_size = Inr 7\<rparr>"

definition js_validator_env :: validator_env where
  "js_validator_env =
     \<lparr>findall = example_findall,
      read_text_utf8 = Inr ''eval(x)'',
      ast_parse = (\<lambda>code. Parse_ok),
      node_check = Completed 0 [] [],
      flake8 = File_not_found ''[Errno 2] No such file or directory: flake8'',
      eslint = Completed 0 [] [],
      bandit = File_not_found ''[Errno 2] No such file or directory: bandit'',
      eslint_loads = (\<lambda>out. None),
      bandit_loads = (\<lambda>out. None)\<rparr>"

definition js_upload :: upload_file where
  "js_upload = \<lparr>filename = ''app.js'', content = ''eval(x)'', content_type = None\<rparr>"

definition tools_missing_env :: validator_env where
  "tools_missing_env =
     \<lparr>findall = example_findall,
      read_text_utf8 = Inr ''x = 1'',
      ast_parse = (\<lambda>code. Parse_ok),
      node_check = File_not_found ''[Errno 2] No such file or directory: node'',
      flake8 = File_not_found ''[Errno 2] No such file or directory: flake8'',
      eslint = File_not_found ''[Errno 2] No such file or directory: eslint'',
      bandit = File_not_found ''[Errno 2] No such file or directory: bandit'',
      eslint_loads = (\<lambda>out. None),
      bandit_loads = (\<lambda>out. None)\<rparr>"


definition java_info :: file_info where
  "java_info = \<lparr>name = ''Main.java'', size_bytes = 120, type = ''text/x-java''\<rparr>"


section \<open>Properties of the confidence scorer and of the recommendation\<close>

lemma weights_present [simp]:
  "map_of weights ''security'' = Some (35 / 100)"
  "map_of weights ''technical_quality'' = Some (30 / 100)"
  "map_of weights ''originality'' = Some (20 / 100)"
  "map_of weights ''completeness'' = Some (15 / 100)"
  by (simp_all add: weights_def)

lemma floor_rat_numeral:
  "floor (numeral a / numeral b :: rat) = numeral a div numeral b"
  using floor_divide_of_int_eq [of "numeral a" "numeral b", where ?'a = rat] by simp

lemma low_score_blocks_bonus:
  fixes sc :: scores
  assumes "map_of sc k = Some v" and "v < 85"
  shows "\<not> list_all (\<lambda>(category, score). 85 \<le> score) sc"
proof -
  from assms(1) have "(k, v) \<in> set sc" by (rule map_of_SomeD)
  with assms(2) show ?thesis
    by (auto simp: list_all_iff intro!: bexI [of _ "(k, v)"])
qed

text \<open>
  Claim C2. The recommendation depends on the confidence and the issue list only: it is
  \<^verbatim>\<open>reject\<close> when some issue has severity \<^verbatim>\<open>error\<close>, whatever the confidence; otherwise
  \<^verbatim>\<open>approve\<close> from 85 up, \<^verbatim>\<open>human_review\<close> from 70 up, and \<^verbatim>\<open>reject\<close> below.
\<close>

theorem get_recommendation_decision:
  "get_recommendation c all_issues =
     (if \<exists>i \<in> set all_issues. severity i = Error then ''reject''
      else if 85 \<le> c then ''approve''
      else if 70 \<le> c then ''human_review''
      else ''reject'')"
  by (auto simp: get_recommendation_def filter_empty_conv)

theorem get_recommendation_decision_witness:
  "get_recommendation 100
     [\<lparr>severity = Error, message = ''Malware detected: Eicar'', file = ''a.py'',
       line = None, rule = Some ''clamav_scan''\<rparr>] = ''reject''
   \<and> get_recommendation 85 [] = ''approve''
   \<and> get_recommendation 84 [] = ''human_review''
   \<and> get_recommendation 69 [] = ''reject''"
  using
    get_recommendation_decision [of 100
      "[\<lparr>severity = Error, message = ''Malware detected: Eicar'', file = ''a.py'',
         line = None, rule = Some ''clamav_scan''\<rparr>]"]
    get_recommendation_decision [of 85 "[]"]
    get_recommendation_decision [of 84 "[]"]
    get_recommendation_decision [of 69 "[]"]
  by simp

text \<open>
  Claim C3, as stated: the score map \<^verbatim>\<open>{security: 90}\<close> gives confidence 90. It does not:
  the only score present is at least 85, so the 5 percent bonus applies to the
  renormalised mean 90, and 94.5 rounds to 94.
\<close>

theorem single_security_90_not_90:
  "calculate_overall_confidence [(''security'', 90)] \<noteq> 90"
  by (simp add: calculate_overall_confidence_def apply_confidence_adjustments_def
      final_score_def dict_get_def py_round_def Let_def floor_rat_numeral)

text \<open>
  Claim C3, amended: for the score map \<^verbatim>\<open>{security: 90}\<close> the weighted mean over the
  categories present, divided by the sum of their weights, is 90 (the missing categories do
  not lower it); the bonus for all present sc being at least 85 then multiplies it by
  1.05, and the confidence returned is 94.
\<close>

theorem single_security_90_confidence:
  "final_score [(''security'', 90)] = 90
   \<and> apply_confidence_adjustments [(''security'', 90)] 90 = 189 / 2
   \<and> calculate_overall_confidence [(''security'', 90)] = 94"
  by (simp add: calculate_overall_confidence_def apply_confidence_adjustments_def
      final_score_def dict_get_def py_round_def Let_def floor_rat_numeral)

text \<open>
  Claim C4. When the security score is below 50 and the technical quality score is below
  30, the adjustment multiplies the weighted mean by 0.3 and then by 0.5 (together 0.15);
  the bonus cannot apply, and the product is what gets rounded and clamped.
\<close>

theorem penalties_compound:
  assumes "map_of sc ''security'' = Some s" and "s < 50"
    and "map_of sc ''technical_quality'' = Some t" and "t < 30"
  shows "apply_confidence_adjustments sc base = base * (3 / 10) * (5 / 10)
    \<and> calculate_overall_confidence sc =
        max 0 (min 100 (py_round (final_score sc * (3 / 10) * (5 / 10))))"
proof -
  from assms(1,2) have nb: "\<not> list_all (\<lambda>(category, score). 85 \<le> score) sc"
    by (intro low_score_blocks_bonus [of sc "''security''" s]) simp_all
  have adj: "apply_confidence_adjustments sc b = b * (3 / 10) * (5 / 10)" for b
    using assms nb by (simp add: apply_confidence_adjustments_def dict_get_def Let_def)
  show ?thesis
    by (simp add: adj calculate_overall_confidence_def Let_def)
qed

theorem penalties_compound_witness:
  "apply_confidence_adjustments
     [(''security'', 40), (''technical_quality'', 20), (''originality'', 85),
      (''completeness'', 80)] 49 = 147 / 20
   \<and> calculate_overall_confidence
     [(''security'', 40), (''technical_quality'', 20), (''originality'', 85),
      (''completeness'', 80)] = 7"
proof -
  let ?sc = "[(''security'', 40), (''technical_quality'', 20), (''originality'', 85),
      (''completeness'', 80)] :: scores"
  have fs: "final_score ?sc = 49"
    by (simp add: final_score_def)
  have "map_of ?sc ''security'' = Some 40" "map_of ?sc ''technical_quality'' = Some 20"
    by simp_all
  from penalties_compound [OF this(1) _ this(2), of 49] fs
  show ?thesis by (simp add: py_round_def Let_def floor_rat_numeral)
qed

section \<open>Properties of the security scanner\<close>

lemma scan_patterns_deduction_nonneg:
  "0 \<le> d \<Longrightarrow> 0 \<le> snd (scan_patterns fa c f ps (is, d))"
proof (induction ps arbitrary: "is" d)
  case Nil
  then show ?case by simp
next
  case (Cons p ps)
  obtain pattern msg sev where p: "p = (pattern, msg, sev)" by (cases p) auto
  have "0 \<le> d + (case sev of Error \<Rightarrow> 30 | Warning \<Rightarrow> 10 | Info \<Rightarrow> 2)"
    using Cons.prems by (cases sev) simp_all
  with Cons show ?case by (simp add: p Let_def)
qed

lemma scan_file_content_deduction_nonneg:
  "0 \<le> score_deduction (scan_file_content env fi)"
proof -
  have "0 \<le> snd (scan_patterns fa c f suspicious_patterns ([], 0))" for fa c f
    by (rule scan_patterns_deduction_nonneg) simp
  then show ?thesis
    by (auto simp: scan_file_content_def Let_def split: sum.splits prod.splits)
      (metis snd_conv)
qed

lemma validate_file_structure_deduction_nonneg:
  "0 \<le> score_deduction (validate_file_structure env fi)"
  by (simp add: validate_file_structure_def Let_def split: sum.splits)

lemma scan_file_score:
  "score (scan_file env fi) =
     max 0 ((if infected (scan_with_clamav env) then 0 else 100)
            - (if suspicious (validate_file_type env fi) then 20 else 0)
            - score_deduction (scan_file_content env fi)
            - score_deduction (validate_file_structure env fi))"
  by (simp add: scan_file_def Let_def)

lemma not_suspicious_no_issues:
  "\<not> suspicious (validate_file_type env fi) \<Longrightarrow> issues (validate_file_type env fi) = []"
  by (auto simp: validate_file_type_def Let_def split: sum.splits if_splits)

lemma exe_ext: "lower (splitext_ext ''tool.exe'') = ''.exe''"
  by code_simp

lemma never_infected: "\<not> infected (scan_with_clamav env)"
  by (simp add: scan_with_clamav_def split: clamd_reply.splits list.splits prod.splits)

text \<open>
  Claim C1. A file that the malware stage finds infected must get the security score 0.
  The source sets the score to 0 where \<^verbatim>\<open>_scan_with_clamav\<close> reports an infection, but on
  the reply of ClamAV for a detected file that function raises inside and reports no
  infection, for every reply. The detected file \<^verbatim>\<open>tool.exe\<close> gets no malware issue and the
  score 80, which it owes to the file-type stage alone.
\<close>

theorem detected_malware_not_reported:
  "clamd_scan infected_env =
     Scan_items [(''/tmp/tmpk3_tool.exe'', ''FOUND'', Some ''Eicar-Test-Signature'')]
   \<and> \<not> infected (scan_with_clamav env)
   \<and> scan_file infected_env exe_info =
       \<lparr>issues =
          [\<lparr>severity = Error, message = ''Dangerous file type not allowed: .exe'',
            file = ''tool.exe'', line = None, rule = Some ''file_type_validation''\<rparr>,
           \<lparr>severity = Error, message = ''Executable file detected by signature'',
            file = ''tool.exe'', line = None, rule = Some ''file_signature_check''\<rparr>],
        score = 80, scan_completed = True\<rparr>"
proof -
  have "scan_file infected_env exe_info =
       \<lparr>issues =
          [\<lparr>severity = Error, message = ''Dangerous file type not allowed: .exe'',
            file = ''tool.exe'', line = None, rule = Some ''file_type_validation''\<rparr>,
           \<lparr>severity = Error, message = ''Executable file detected by signature'',
            file = ''tool.exe'', line = None, rule = Some ''file_signature_check''\<rparr>],
        score = 80, scan_completed = True\<rparr>"
    by (simp add: scan_file_def scan_with_clamav_def validate_file_type_def
        scan_file_content_def validate_file_structure_def infected_env_def exe_info_def
        exe_ext Let_def dangerous_extensions_def text_extensions_def code_extensions_def)
  then show ?thesis
    by (simp add: never_infected) (simp add: infected_env_def)
qed

text \<open>
  Claim C8. When the extension is on the deny list and the file starts with the executable
  signature, the file-type stage reports both errors and marks the file suspicious, and
  \<^verbatim>\<open>scan_file\<close> takes 20 points off for the stage, once.
\<close>

theorem file_type_deduction_once:
  assumes "lower (splitext_ext (name fi)) \<in> set dangerous_extensions"
    and "read_16_bytes env = Inr file_signature"
    and "2 \<le> length file_signature" and "take 2 file_signature = ''MZ''"
  shows "validate_file_type env fi =
      \<lparr>issues =
         [\<lparr>severity = Error,
           message = ''Dangerous file type not allowed: '' @ lower (splitext_ext (name fi)),
           file = name fi, line = None, rule = Some ''file_type_validation''\<rparr>,
          \<lparr>severity = Error, message = ''Executable file detected by signature'',
           file = name fi, line = None, rule = Some ''file_signature_check''\<rparr>],
       suspicious = True\<rparr>
    \<and> score (scan_file env fi) =
        max 0 ((if infected (scan_with_clamav env) then 0 else 100) - 20
               - score_deduction (scan_file_content env fi)
               - score_deduction (validate_file_structure env fi))"
proof -
  have ft: "validate_file_type env fi =
      \<lparr>issues =
         [\<lparr>severity = Error,
           message = ''Dangerous file type not allowed: '' @ lower (splitext_ext (name fi)),
           file = name fi, line = None, rule = Some ''file_type_validation''\<rparr>,
          \<lparr>severity = Error, message = ''Executable file detected by signature'',
           file = name fi, line = None, rule = Some ''file_signature_check''\<rparr>],
       suspicious = True\<rparr>"
    using assms by (simp add: validate_file_type_def Let_def)
  show ?thesis
    by (simp add: ft scan_file_score)
qed

theorem file_type_deduction_once_witness:
  "issues (validate_file_type clean_exe_env exe_info) =
      [\<lparr>severity = Error, message = ''Dangerous file type not allowed: .exe'',
        file = ''tool.exe'', line = None, rule = Some ''file_type_validation''\<rparr>,
       \<lparr>severity = Error, message = ''Executable file detected by signature'',
        file = ''tool.exe'', line = None, rule = Some ''file_signature_check''\<rparr>]
   \<and> score (scan_file clean_exe_env exe_info) = 80"
  using file_type_deduction_once [of exe_info clean_exe_env "''MZ''"]
  by (simp add: exe_info_def clean_exe_env_def infected_env_def exe_ext dangerous_extensions_def
      scan_with_clamav_def scan_file_content_def validate_file_structure_def Let_def
      text_extensions_def code_extensions_def)

section \<open>Properties of the code validator\<close>

lemma foldl_snd_nonneg:
  fixes g :: "'s \<times> int \<Rightarrow> 'x \<Rightarrow> 's \<times> int"
  assumes step: "\<And>acc x. 0 \<le> snd acc \<Longrightarrow> 0 \<le> snd (g acc x)"
    and "0 \<le> snd a"
  shows "0 \<le> snd (foldl g a xs)"
  using assms(2) by (induction xs arbitrary: a) (simp_all add: step)

lemma flake8_line_nonneg:
  "0 \<le> snd acc \<Longrightarrow> flake8_line f row acc = Inr acc' \<Longrightarrow> 0 \<le> snd acc'"
  by (cases acc) (auto simp: flake8_line_def Let_def split: if_splits sum.splits)

lemma flake8_rows_nonneg:
  "0 \<le> snd acc \<Longrightarrow> flake8_rows f rows acc = Inr acc' \<Longrightarrow> 0 \<le> snd acc'"
proof (induction rows arbitrary: acc)
  case Nil
  then show ?case by simp
next
  case (Cons row rows)
  then show ?case
    by (auto split: sum.splits dest: flake8_line_nonneg)
qed

lemma eslint_issue_nonneg: "0 \<le> snd acc \<Longrightarrow> 0 \<le> snd (eslint_issue f m acc)"
  by (cases acc) (simp add: eslint_issue_def Let_def)

lemma bandit_finding_nonneg: "0 \<le> snd acc \<Longrightarrow> 0 \<le> snd (bandit_finding f b acc)"
  by (cases acc) (simp add: bandit_finding_def Let_def split: severity.splits)

lemma js_patterns_deduction_nonneg:
  "0 \<le> d \<Longrightarrow> 0 \<le> snd (js_patterns fa c f ps (is, d))"
proof (induction ps arbitrary: "is" d)
  case Nil
  then show ?case by simp
next
  case (Cons p ps)
  obtain pattern msg sev where p: "p = (pattern, msg, sev)" by (cases p) auto
  have "0 \<le> d + (case sev of Error \<Rightarrow> 15 | Warning \<Rightarrow> 8 | Info \<Rightarrow> 0)"
    using Cons.prems by (cases sev) simp_all
  with Cons show ?case by (simp add: p Let_def)
qed

lemma validate_syntax_deduction_nonneg:
  "0 \<le> score_deduction (validate_syntax env lang fi)"
  by (simp add: validate_syntax_def split: option.splits syntax_result.splits)

lemma analyze_code_quality_deduction_nonneg:
  "0 \<le> score_deduction (analyze_code_quality env lang fi)"
proof -
  have a: "flake8_rows f rows ([], 0) = Inr acc \<Longrightarrow> 0 \<le> snd acc" for f rows acc
    by (rule flake8_rows_nonneg [of "([], 0)"]) simp_all
  have b: "0 \<le> snd (foldl (\<lambda>acc m. eslint_issue f m acc) ([], 0) ms)" for f ms
    by (rule foldl_snd_nonneg) (simp_all add: eslint_issue_nonneg)
  have fin: "0 \<le> snd acc \<Longrightarrow>
      0 \<le> score_deduction (case acc of (issues_1, deduction) \<Rightarrow>
            \<lparr>issues = issues_1, score_deduction = min deduction 30\<rparr>)" for acc :: "issue list \<times> int"
    by (cases acc) simp
  show ?thesis
    by (auto simp: analyze_code_quality_def Let_def b fin
        split: proc_result.splits option.splits sum.splits dest!: a)
qed

lemma analyze_code_security_deduction_nonneg:
  "0 \<le> score_deduction (analyze_code_security env lang fi)"
proof -
  have a: "0 \<le> snd (foldl (\<lambda>acc b. bandit_finding f b acc) ([], 0) bs)" for f bs
    by (rule foldl_snd_nonneg) (simp_all add: bandit_finding_nonneg)
  have b: "0 \<le> snd (js_patterns fa c f security_patterns ([], 0))" for fa c f
    by (rule js_patterns_deduction_nonneg) simp
  have fin: "0 \<le> snd acc \<Longrightarrow>
      0 \<le> score_deduction (case acc of (issues_1, deduction) \<Rightarrow>
            \<lparr>issues = issues_1, score_deduction = min deduction 40\<rparr>)" for acc :: "issue list \<times> int"
    by (cases acc) simp
  show ?thesis
    by (simp add: analyze_code_security_def Let_def a b fin
        split: proc_result.splits option.splits sum.splits)
qed

lemma analyze_complexity_deduction_nonneg:
  "0 \<le> score_deduction (analyze_complexity env lang fi)"
  by (simp add: analyze_complexity_def Let_def split: sum.splits option.splits prod.splits)

lemma validate_code_file_score_range:
  "0 \<le> score (validate_code_file env fi) \<and> score (validate_code_file env fi) \<le> 100"
proof (cases "detect_language (lower (splitext_ext (name fi)))")
  case None
  then show ?thesis by (simp add: validate_code_file_def Let_def)
next
  case (Some lang)
  then show ?thesis
    using validate_syntax_deduction_nonneg [of env lang fi]
      analyze_code_quality_deduction_nonneg [of env lang fi]
      analyze_code_security_deduction_nonneg [of env lang fi]
      analyze_complexity_deduction_nonneg [of env lang fi]
    by (simp add: validate_code_file_def Let_def)
qed

lemma scan_file_score_range:
  "0 \<le> score (scan_file env fi) \<and> score (scan_file env fi) \<le> 100"
  using scan_file_content_deduction_nonneg [of env fi]
    validate_file_structure_deduction_nonneg [of env fi]
  by (simp add: scan_file_score)

lemma calculate_overall_confidence_range:
  "0 \<le> calculate_overall_confidence sc \<and> calculate_overall_confidence sc \<le> 100"
  by (simp add: calculate_overall_confidence_def Let_def)

text \<open>
  Claim C5. The score of the security scanner, the score of the code validator and the
  confidence are between 0 and 100, on the regular path and on the path of each
  exception handler.
\<close>

theorem scores_and_confidence_in_range:
  "(0 \<le> score (scan_file senv fi) \<and> score (scan_file senv fi) \<le> 100)
   \<and> (0 \<le> score (scan_file_except issues_so_far e fi)
        \<and> score (scan_file_except issues_so_far e fi) \<le> 100)
   \<and> (0 \<le> score (validate_code_file venv fi) \<and> score (validate_code_file venv fi) \<le> 100)
   \<and> (0 \<le> score (validate_code_file_except e fi)
        \<and> score (validate_code_file_except e fi) \<le> 100)
   \<and> (0 \<le> calculate_overall_confidence sc \<and> calculate_overall_confidence sc \<le> 100)
   \<and> (0 \<le> calculate_overall_confidence_except \<and> calculate_overall_confidence_except \<le> 100)"
  using scan_file_score_range [of senv fi] validate_code_file_score_range [of venv fi]
    calculate_overall_confidence_range [of sc]
  by (simp add: scan_file_except_def validate_code_file_except_def
      calculate_overall_confidence_except_def)

lemma java_ext: "lower (splitext_ext ''Main.java'') = ''.java''"
  by code_simp

lemma detect_language_in_None:
  "detect_language_in table ext = None \<longleftrightarrow> ext \<notin> set (concat (map snd table))"
  by (induction table ext rule: detect_language_in.induct) auto

text \<open>
  Claim C7. For a file whose extension is in no entry of the language table,
  \<^verbatim>\<open>validate_code_file\<close> returns the score 50 with one issue of severity \<^verbatim>\<open>info\<close>; the
  result does not depend on what the syntax, quality, security or complexity stage would
  observe, since none of them runs.
\<close>

theorem unsupported_extension_neutral:
  assumes "lower (splitext_ext (name fi)) \<notin> set (concat (map snd supported_languages))"
  shows "validate_code_file env fi =
      \<lparr>issues =
         [\<lparr>severity = Info,
           message = ''Unsupported file type for code validation: '' @
             lower (splitext_ext (name fi)),
           file = name fi, line = None, rule = Some ''language_detection''\<rparr>],
       score = 50, language = None\<rparr>
    \<and> validate_code_file env fi = validate_code_file env' fi"
proof -
  from assms have "detect_language (lower (splitext_ext (name fi))) = None"
    by (simp add: detect_language_def detect_language_in_None)
  then show ?thesis
    by (simp add: validate_code_file_def Let_def)
qed

theorem unsupported_extension_neutral_witness:
  "validate_code_file tools_missing_env java_info =
      \<lparr>issues =
         [\<lparr>severity = Info,
           message = ''Unsupported file type for code validation: .java'',
           file = ''Main.java'', line = None, rule = Some ''language_detection''\<rparr>],
       score = 50, language = None\<rparr>
   \<and> validate_code_file tools_missing_env java_info =
      validate_code_file js_validator_env java_info"
  using unsupported_extension_neutral [of java_info tools_missing_env js_validator_env]
  by (auto simp: java_info_def java_ext supported_languages_def)

section \<open>Failures inside a stage\<close>


text \<open>
  What the syntax stage does when its checker fails: for the two languages of the table the
  checker reports the failure as invalid syntax, so the stage returns an \<^verbatim>\<open>error\<close> and
  deducts 50 points; the handler of the stage itself, a \<^verbatim>\<open>warning\<close> and 10 points, is only
  entered for a language that is not in the table.
\<close>

lemma syntax_checker_failure_is_invalid_syntax:
  "validate_syntax (venv\<lparr>node_check := File_not_found e\<rparr>) ''javascript'' fi =
      \<lparr>issues =
         [\<lparr>severity = Error,
           message = ''Syntax error: Node.js not available for syntax checking'',
           file = name fi, line = None, rule = Some ''syntax_validation''\<rparr>],
       score_deduction = 50\<rparr>
   \<and> validate_syntax (venv\<lparr>node_check := Timeout_expired\<rparr>) ''javascript'' fi =
      \<lparr>issues =
         [\<lparr>severity = Error, message = ''Syntax error: Syntax check timed out'',
           file = name fi, line = None, rule = Some ''syntax_validation''\<rparr>],
       score_deduction = 50\<rparr>
   \<and> validate_syntax (venv\<lparr>read_text_utf8 := Inl e\<rparr>) ''python'' fi =
      \<lparr>issues =
         [\<lparr>severity = Error, message = ''Syntax error: Parsing error: '' @ e,
           file = name fi, line = None, rule = Some ''syntax_validation''\<rparr>],
       score_deduction = 50\<rparr>"
  by (simp add: validate_syntax_def syntax_checker_def check_javascript_syntax_def
      check_python_syntax_def)

lemma syntax_handler_only_outside_table:
  "score_deduction (validate_syntax venv lang fi) = 10 \<longleftrightarrow>
     lang \<noteq> ''python'' \<and> lang \<noteq> ''javascript''"
  by (simp add: validate_syntax_def syntax_checker_def split: syntax_result.splits)




section \<open>Properties of the orchestrator\<close>

lemma js_ext: "lower (splitext_ext ''app.js'') = ''.js''"
  by code_simp

lemma str_nat_1: "str_nat (Suc 0) = ''1''"
  by code_simp

lemma js_scan_issues:
  "issues (scan_file js_scanner_env (upload_info js_upload)) =
     [\<lparr>severity = Warning, message = ''Use of eval() function detected (1 occurrences)'',
       file = ''app.js'', line = None, rule = Some ''content_pattern_scan''\<rparr>,
      \<lparr>severity = Info, message = ''Very small code file detected'',
       file = ''app.js'', line = None, rule = Some ''file_size_check''\<rparr>]"
  by (simp add: scan_file_def scan_with_clamav_def validate_file_type_def scan_file_content_def
      validate_file_structure_def js_scanner_env_def js_upload_def upload_info_def js_ext
      str_nat_1 example_findall_def Let_def dangerous_extensions_def text_extensions_def
      code_extensions_def suspicious_patterns_def)

lemma strip_eval: "strip ''eval(x)'' = ''eval(x)''"
  by code_simp

lemma split_eval: "split_char CHR 0x0A ''eval(x)'' = [''eval(x)'']"
  by code_simp

lemma js_validate_issues:
  "issues (validate_code_file js_validator_env (upload_info js_upload)) =
     [\<lparr>severity = Error, message = ''Use of eval() detected (1 occurrences)'',
       file = ''app.js'', line = None, rule = Some ''js_security_pattern''\<rparr>]"
  by (simp add: validate_code_file_def detect_language_def supported_languages_def
      validate_syntax_def syntax_checker_def check_javascript_syntax_def
      analyze_code_quality_def analyze_code_security_def analyze_complexity_def
      js_validator_env_def js_upload_def upload_info_def js_ext str_nat_1 strip_eval split_eval
      example_findall_def Let_def security_patterns_def)

text \<open>
  Claim C10. The issue list of a file result, from \<^verbatim>\<open>process_single_file\<close> and from
  \<^verbatim>\<open>validate_code_only\<close>, is the issues of the security scan followed by the issues of
  the code validation; the scan lists its issues in the order malware, file type,
  content, structure, and the validation in the order syntax, quality, security,
  complexity.
\<close>

theorem issues_security_then_quality:
  "issues (process_single_file senv venv upload rt) =
     issues (scan_file senv (upload_info upload)) @
     (if rt = ''coder'' then issues (validate_code_file venv (upload_info upload)) else [])
   \<and> (case validate_code_only senv venv code_content lang fname of
         Inl e \<Rightarrow> lang \<notin> set [''python'', ''javascript'']
       | Inr r \<Rightarrow>
           issues r =
             issues (scan_file senv
               \<lparr>name = fname, size_bytes = length code_content, type = ''text/'' @ lang\<rparr>) @
             issues (validate_code_file venv
               \<lparr>name = fname, size_bytes = length code_content, type = ''text/'' @ lang\<rparr>))
   \<and> issues (scan_file senv fi) =
       (if infected (scan_with_clamav senv)
        then [\<lparr>severity = Error,
               message = ''Malware detected: '' @
                 (case virus (scan_with_clamav senv) of Some v \<Rightarrow> v | None \<Rightarrow> ''None''),
               file = name fi, line = None, rule = Some ''clamav_scan''\<rparr>]
        else []) @
       issues (validate_file_type senv fi) @
       issues (scan_file_content senv fi) @
       issues (validate_file_structure senv fi)
   \<and> (case detect_language (lower (splitext_ext (name fi))) of
         None \<Rightarrow> length (issues (validate_code_file venv fi)) = 1
       | Some l \<Rightarrow>
           issues (validate_code_file venv fi) =
             issues (validate_syntax venv l fi) @
             issues (analyze_code_quality venv l fi) @
             issues (analyze_code_security venv l fi) @
             issues (analyze_complexity venv l fi))"
proof -
  have a: "issues (process_single_file senv venv upload rt) =
     issues (scan_file senv (upload_info upload)) @
     (if rt = ''coder'' then issues (validate_code_file venv (upload_info upload)) else [])"
    by (simp add: process_single_file_def Let_def)
  have b: "(case validate_code_only senv venv code_content lang fname of
         Inl e \<Rightarrow> lang \<notin> set [''python'', ''javascript'']
       | Inr r \<Rightarrow>
           issues r =
             issues (scan_file senv
               \<lparr>name = fname, size_bytes = length code_content, type = ''text/'' @ lang\<rparr>) @
             issues (validate_code_file venv
               \<lparr>name = fname, size_bytes = length code_content, type = ''text/'' @ lang\<rparr>))"
    by (simp add: validate_code_only_def Let_def)
  have c: "issues (scan_file senv fi) =
       (if infected (scan_with_clamav senv)
        then [\<lparr>severity = Error,
               message = ''Malware detected: '' @
                 (case virus (scan_with_clamav senv) of Some v \<Rightarrow> v | None \<Rightarrow> ''None''),
               file = name fi, line = None, rule = Some ''clamav_scan''\<rparr>]
        else []) @
       issues (validate_file_type senv fi) @
       issues (scan_file_content senv fi) @
       issues (validate_file_structure senv fi)"
    using not_suspicious_no_issues [of senv fi]
    by (simp add: scan_file_def Let_def)
  have d: "(case detect_language (lower (splitext_ext (name fi))) of
         None \<Rightarrow> length (issues (validate_code_file venv fi)) = 1
       | Some l \<Rightarrow>
           issues (validate_code_file venv fi) =
             issues (validate_syntax venv l fi) @
             issues (analyze_code_quality venv l fi) @
             issues (analyze_code_security venv l fi) @
             issues (analyze_complexity venv l fi))"
    by (simp add: validate_code_file_def Let_def split: option.splits)
  from a b c d show ?thesis by blast
qed

theorem issues_security_then_quality_witness:
  "issues (process_single_file js_scanner_env js_validator_env js_upload ''coder'') =
     [\<lparr>severity = Warning, message = ''Use of eval() function detected (1 occurrences)'',
       file = ''app.js'', line = None, rule = Some ''content_pattern_scan''\<rparr>,
      \<lparr>severity = Info, message = ''Very small code file detected'',
       file = ''app.js'', line = None, rule = Some ''file_size_check''\<rparr>,
      \<lparr>severity = Error, message = ''Use of eval() detected (1 occurrences)'',
       file = ''app.js'', line = None, rule = Some ''js_security_pattern''\<rparr>]"
  using issues_security_then_quality
    [of js_scanner_env js_validator_env js_upload "''coder''" "[]" "[]" "[]" exe_info]
  by (simp add: js_scan_issues js_validate_issues)

lemma round_2_zero: "round_2 0 = 0"
  by (simp add: round_2_def py_round_def)

lemma non_coder_file:
  assumes "rt \<noteq> ''coder''"
  shows "process_single_file senv venv upload rt =
     \<lparr>issues = issues (scan_file senv (upload_info upload)),
      file_info = upload_info upload,
      scores =
        [(''security'', of_int (score (scan_file senv (upload_info upload)))),
         (''technical_quality'', 0),
         (''originality'', 85),
         (''completeness'', 80)]\<rparr>"
  using assms by (simp add: process_single_file_def Let_def)

lemma non_coder_fold:
  assumes "rt \<noteq> ''coder''"
  shows "\<exists>pf' a' c' d' is'.
     foldl (add_file rt)
       (pf, [(''security'', a), (''technical_quality'', 0), (''originality'', c),
             (''completeness'', d)], is) files =
       (pf', [(''security'', a'), (''technical_quality'', 0), (''originality'', c'),
              (''completeness'', d')], is')
     \<and> length pf' = length pf + length files"
proof (induction files arbitrary: pf a c d "is")
  case Nil
  then show ?case by simp
next
  case (Cons f files)
  obtain upload senv venv where f: "f = (upload, senv, venv)" by (cases f) auto
  have step: "add_file rt
       (pf, [(''security'', a), (''technical_quality'', 0), (''originality'', c),
             (''completeness'', d)], is) f =
       (pf @ [process_single_file senv venv upload rt],
        [(''security'', a + of_int (score (scan_file senv (upload_info upload)))),
         (''technical_quality'', 0), (''originality'', c + 85), (''completeness'', d + 80)],
        is @ issues (scan_file senv (upload_info upload)))"
    using assms by (simp add: add_file_def f non_coder_file dict_get_def)
  from Cons.IH [of "pf @ [process_single_file senv venv upload rt]"
      "a + of_int (score (scan_file senv (upload_info upload)))" "c + 85" "d + 80"
      "is @ issues (scan_file senv (upload_info upload))"]
  show ?case by (simp add: step) 
qed

lemma zero_quality_adjustment:
  assumes "map_of sc ''technical_quality'' = Some 0"
  shows "apply_confidence_adjustments sc b =
     (if dict_get sc ''security'' 100 < 50 then b * (3 / 10)
      else if dict_get sc ''security'' 100 < 70 then b * (7 / 10)
      else b) * (5 / 10)"
proof -
  from assms have nb: "\<not> list_all (\<lambda>(category, score). 85 \<le> score) sc"
    by (intro low_score_blocks_bonus [of sc "''technical_quality''" 0]) simp_all
  show ?thesis
    using assms nb by (simp add: apply_confidence_adjustments_def dict_get_def Let_def)
qed

lemma researcher_file:
  "process_single_file js_scanner_env js_validator_env js_upload ''researcher'' =
     \<lparr>issues =
        [\<lparr>severity = Warning, message = ''Use of eval() function detected (1 occurrences)'',
          file = ''app.js'', line = None, rule = Some ''content_pattern_scan''\<rparr>,
         \<lparr>severity = Info, message = ''Very small code file detected'',
          file = ''app.js'', line = None, rule = Some ''file_size_check''\<rparr>],
      file_info = \<lparr>name = ''app.js'', size_bytes = 7, type = ''unknown''\<rparr>,
      scores = [(''security'', 88), (''technical_quality'', 0), (''originality'', 85),
                (''completeness'', 80)]\<rparr>"
proof -
  have s: "score (scan_file js_scanner_env (upload_info js_upload)) = 88"
    by (simp add: scan_file_def scan_with_clamav_def validate_file_type_def
        scan_file_content_def validate_file_structure_def js_scanner_env_def js_upload_def
        upload_info_def js_ext str_nat_1 example_findall_def Let_def dangerous_extensions_def
        text_extensions_def code_extensions_def suspicious_patterns_def)
  have u: "upload_info js_upload = \<lparr>name = ''app.js'', size_bytes = 7, type = ''unknown''\<rparr>"
    by (simp add: upload_info_def js_upload_def)
  show ?thesis
    using js_scan_issues s by (simp add: process_single_file_def Let_def u)
qed

lemma researcher_example:
  "validate_submission ''researcher'' [(js_upload, js_scanner_env, js_validator_env)] =
     Inr \<lparr>overall_confidence = 30,
          security_passed = True,
          detailed_scores = [(''security'', 88), (''technical_quality'', 0),
                             (''originality'', 85), (''completeness'', 80)],
          issues_found =
            [\<lparr>severity = Warning, message = ''Use of eval() function detected (1 occurrences)'',
              file = ''app.js'', line = None, rule = Some ''content_pattern_scan''\<rparr>,
             \<lparr>severity = Info, message = ''Very small code file detected'',
              file = ''app.js'', line = None, rule = Some ''file_size_check''\<rparr>],
          recommendation = ''reject'',
          files_processed = 1\<rparr>"
proof -
  have r2: "round_2 88 = 88" "round_2 85 = 85" "round_2 80 = 80" "round_2 0 = 0"
    by (simp_all add: round_2_def py_round_def)
  have conf: "calculate_overall_confidence
      [(''security'', 88), (''technical_quality'', 0), (''originality'', 85),
       (''completeness'', 80)] = 30"
    by (simp add: calculate_overall_confidence_def apply_confidence_adjustments_def
        final_score_def dict_get_def py_round_def Let_def floor_rat_numeral)
  show ?thesis
    by (simp add: validate_submission_def add_file_def researcher_file dict_get_def r2 conf
        get_recommendation_def Let_def)
qed

text \<open>
  Claim C9. For a submission of a researcher or a data scientist the code validator is not
  called: the technical quality score of each file is 0, its issues are those of the
  security scan, and the file result does not depend on what the validator would
  observe. The averaged technical quality is then 0, so the adjustment halves the
  confidence after the security penalty, and the bonus never applies.
\<close>

theorem non_coder_quality_zero:
  assumes "rt = ''researcher'' \<or> rt = ''data_scientist''" and "files \<noteq> []"
  shows "map_of (scores (process_single_file senv venv upload rt)) ''technical_quality'' = Some 0
    \<and> issues (process_single_file senv venv upload rt) =
        issues (scan_file senv (upload_info upload))
    \<and> process_single_file senv venv upload rt = process_single_file senv venv' upload rt
    \<and> (\<exists>r. validate_submission rt files = Inr r
          \<and> map_of (detailed_scores r) ''technical_quality'' = Some 0
          \<and> (\<forall>b. apply_confidence_adjustments (detailed_scores r) b =
                (if dict_get (detailed_scores r) ''security'' 100 < 50 then b * (3 / 10)
                 else if dict_get (detailed_scores r) ''security'' 100 < 70 then b * (7 / 10)
                 else b) * (5 / 10))
          \<and> overall_confidence r = calculate_overall_confidence (detailed_scores r))"
proof -
  from assms(1) have nc: "rt \<noteq> ''coder''" by auto
  from assms(1) have ok: "rt \<in> set [''coder'', ''researcher'', ''data_scientist'']" by auto
  obtain pf' a' c' d' is' where fold:
    "foldl (add_file rt)
       ([], [(''security'', 0), (''technical_quality'', 0), (''originality'', 0),
             (''completeness'', 0)], []) files =
       (pf', [(''security'', a'), (''technical_quality'', 0), (''originality'', c'),
              (''completeness'', d')], is')"
    using non_coder_fold [OF nc, of "[]" 0 0 0 "[]" files] by blast
  define r where "r = (case validate_submission rt files of Inr x \<Rightarrow> x)"
  have vs: "validate_submission rt files = Inr r"
    using ok assms(2) unfolding r_def
    by (simp add: validate_submission_def fold Let_def del: set_simps)
  have tq: "map_of (detailed_scores r) ''technical_quality'' = Some 0"
    using ok assms(2) unfolding r_def
    by (simp add: validate_submission_def fold Let_def round_2_zero del: set_simps)
  have oc: "overall_confidence r = calculate_overall_confidence (detailed_scores r)"
    using ok assms(2) unfolding r_def
    by (simp add: validate_submission_def fold Let_def del: set_simps)
  show ?thesis
    using vs tq oc zero_quality_adjustment [OF tq] by (simp add: non_coder_file [OF nc])
qed

theorem non_coder_quality_zero_witness:
  "map_of (scores (process_single_file js_scanner_env js_validator_env js_upload
      ''researcher'')) ''technical_quality'' = Some 0
   \<and> issues (process_single_file js_scanner_env js_validator_env js_upload ''researcher'') =
       issues (scan_file js_scanner_env (upload_info js_upload))
   \<and> process_single_file js_scanner_env js_validator_env js_upload ''researcher'' =
       process_single_file js_scanner_env tools_missing_env js_upload ''researcher''
   \<and> (\<exists>r. validate_submission ''researcher''
             [(js_upload, js_scanner_env, js_validator_env)] = Inr r
          \<and> map_of (detailed_scores r) ''technical_quality'' = Some 0
          \<and> apply_confidence_adjustments (detailed_scores r) (299 / 5) = 299 / 10
          \<and> overall_confidence r = 30)"
proof -
  have adj: "apply_confidence_adjustments
      [(''security'', 88), (''technical_quality'', 0), (''originality'', 85),
       (''completeness'', 80)] (299 / 5) = 299 / 10"
    by (simp add: apply_confidence_adjustments_def dict_get_def Let_def)
  have conf: "calculate_overall_confidence
      [(''security'', 88), (''technical_quality'', 0), (''originality'', 85),
       (''completeness'', 80)] = 30"
    by (simp add: calculate_overall_confidence_def apply_confidence_adjustments_def
        final_score_def dict_get_def py_round_def Let_def floor_rat_numeral)
  from non_coder_quality_zero [of "''researcher''"
      "[(js_upload, js_scanner_env, js_validator_env)]"
      js_scanner_env js_validator_env js_upload tools_missing_env]
  show ?thesis
    by (auto simp: researcher_example adj conf)
qed

end
